theory Spec2Isabelle
  imports Complex_Main "HOL-Library.AList"
begin

section \<open>Python values and errors\<close>

text \<open>
  The exceptions the modelled code raises, or that the interpreter and the libraries
  raise under it. A method that mutates \<open>self\<close> is a function from the object to a
  pair: the exception it ended with, if any, and the object as the call left it.
\<close>

datatype error =
    ValueError | TypeError | KeyError | FileNotFoundError | AssertionError | AttributeError
  | UnboundLocalError

section \<open>The igraph graph behind the store\<close>

text \<open>
  \<open>graph.py\<close> keeps an \<open>igraph.Graph(directed=True)\<close>. Its vertices are numbered by
  position and carry the attributes \<open>name\<close> and \<open>cluster\<close> (set by
  \<open>add_vertex(name=vertex, cluster=None)\<close>); its edges are numbered by position, join
  two vertex positions and carry the attribute \<open>weight\<close> (\<open>Graph.SIM\<close>). Weights are
  floats in the source; the graph code only stores and compares them, so they are an
  arbitrary type here (ordered where they are compared).
\<close>

record ('n, 'l) vertex =
  name :: 'n
  cluster :: "'l option"

record 'w iedge =
  source :: nat
  target :: nat
  weight :: 'w

record ('n, 'l, 'w) igraph =
  vs :: "('n, 'l) vertex list"
  es :: "'w iedge list"

text \<open>\<open>class Edge\<close>: the interface object \<open>Edge(start, end, weight)\<close>.\<close>

datatype ('n, 'w) Edge = Edge (edge_start: 'n) (edge_end: 'n) (edge_weight: 'w)

text \<open>
  \<open>class Graph\<close>: the igraph graph \<open>self.__graph__\<close> and the dictionary
  \<open>self.clusters\<close> from a cluster label to the list of its members. A Python
  dictionary keeps its keys in insertion order and \<open>remove_from_cluster\<close> iterates over
  it, so it is an association list: assignment to a new key appends
  (\<^const>\<open>AList.update\<close>).
\<close>

record ('n, 'l, 'w) Graph =
  graph :: "('n, 'l, 'w) igraph"
  clusters :: "('l \<times> 'n list) list"

definition igraph_Graph :: "('n, 'l, 'w) igraph" where
  \<comment> \<open>\<open>igraph.Graph(directed=True)\<close>\<close>
  "igraph_Graph = \<lparr>vs = [], es = []\<rparr>"

definition Graph_init :: "('n, 'l, 'w) igraph option \<Rightarrow> ('n, 'l, 'w) Graph" where
  \<comment> \<open>\<open>Graph.__init__(graph)\<close> with \<open>similarity=None\<close>; \<open>if graph:\<close> is igraph's
      \<open>Graph.__bool__\<close>, true when the graph has a vertex.\<close>
  "Graph_init g =
     \<lparr>graph = (case g of None \<Rightarrow> igraph_Graph
                | Some g' \<Rightarrow> if vs g' \<noteq> [] then g' else igraph_Graph),
      clusters = []\<rparr>"

subsection \<open>Low level methods\<close>

definition vs_select_name :: "('n, 'l, 'w) igraph \<Rightarrow> 'n \<Rightarrow> error + nat list" where
  \<comment> \<open>igraph's \<open>graph.vs.select(name=name)\<close>: the vertices whose attribute \<open>name\<close> equals
      the argument. The attribute exists once a vertex was added; reading a vertex
      attribute that does not exist is a KeyError.\<close>
  "vs_select_name g n =
     (if vs g = [] then Inl KeyError
      else Inr (filter (\<lambda>i. name (vs g ! i) = n) [0..<length (vs g)]))"

definition dunder_get_node_by_name :: "('n, 'l, 'w) igraph \<Rightarrow> 'n \<Rightarrow> error + nat" where
  \<comment> \<open>\<open>__get_node_by_name__\<close>: the vertex (its position) of that name.\<close>
  "dunder_get_node_by_name g n =
     (case vs_select_name g n of
        Inl e \<Rightarrow> Inl e
      | Inr node \<Rightarrow> if length node \<noteq> 1 then Inl ValueError else Inr (node ! 0))"

fun get_nodes :: "('n, 'l, 'w) igraph \<Rightarrow> ('n \<times> 'n) list \<Rightarrow> error + (nat \<times> nat) list" where
  \<comment> \<open>the comprehension of \<open>__add_edges__\<close>: both ends of every edge, in order.\<close>
  "get_nodes g [] = Inr []"
| "get_nodes g ((e1, e2) # rest) =
     (case dunder_get_node_by_name g e1 of
        Inl e \<Rightarrow> Inl e
      | Inr a \<Rightarrow>
         (case dunder_get_node_by_name g e2 of
            Inl e \<Rightarrow> Inl e
          | Inr b \<Rightarrow>
             (case get_nodes g rest of
                Inl e \<Rightarrow> Inl e
              | Inr r \<Rightarrow> Inr ((a, b) # r))))"

definition mk_iedge :: "nat \<times> nat \<Rightarrow> 'w \<Rightarrow> 'w iedge" where
  "mk_iedge p w = \<lparr>source = fst p, target = snd p, weight = w\<rparr>"

definition dunder_add_edges ::
  "('n, 'l, 'w) Graph \<Rightarrow> ('n \<times> 'n) list \<Rightarrow> 'w list \<Rightarrow> error option \<times> ('n, 'l, 'w) Graph" where
  \<comment> \<open>\<open>__add_edges__\<close> on \<open>self.__graph__\<close>. Both callers build \<open>edges\<close> and \<open>weights\<close>
      from one iterable, so the lists have the same length.\<close>
  "dunder_add_edges G edges weights =
     (case get_nodes (graph G) edges of
        Inl e \<Rightarrow> (Some e, G)
      | Inr new \<Rightarrow>
         (let g = graph G;
              num_edges = length (es g);
              temp_weights = (if num_edges = 0 then [] else map weight (es g)) @ weights;
              ends = map (\<lambda>e. (source e, target e)) (es g) @ new
          in (None, G\<lparr>graph := g\<lparr>es := map2 mk_iedge ends temp_weights\<rparr>\<rparr>)))"

definition dunder_add_label ::
  "('n, 'l, 'w) Graph \<Rightarrow> 'n \<Rightarrow> 'l option \<Rightarrow> error option \<times> ('n, 'l, 'w) Graph" where
  \<comment> \<open>\<open>__add_label__(node, Graph.CLUSTER, value)\<close>\<close>
  "dunder_add_label G node v =
     (case dunder_get_node_by_name (graph G) node of
        Inl e \<Rightarrow> (Some e, G)
      | Inr n \<Rightarrow>
         (let g = graph G
          in (None, G\<lparr>graph := g\<lparr>vs := (vs g)[n := (vs g ! n)\<lparr>cluster := v\<rparr>]\<rparr>\<rparr>)))"

subsection \<open>Interface methods\<close>

definition add_edges ::
  "('n, 'l, 'w) Graph \<Rightarrow> ('n, 'w) Edge list \<Rightarrow> error option \<times> ('n, 'l, 'w) Graph" where
  "add_edges G edges =
     (let new_edges = map (\<lambda>edge. (edge_start edge, edge_end edge)) edges;
          weights = map edge_weight edges
      in dunder_add_edges G new_edges weights)"

definition add_vertices :: "('n, 'l, 'w) Graph \<Rightarrow> 'n list \<Rightarrow> ('n, 'l, 'w) Graph" where
  "add_vertices G vertices =
     fold (\<lambda>vertex G'. G'\<lparr>graph := (graph G')\<lparr>vs := vs (graph G') @ [\<lparr>name = vertex, cluster = None\<rparr>]\<rparr>\<rparr>)
       vertices G"

subsection \<open>Cluster labels\<close>

text \<open>
  \<open>add_to_cluster\<close> and \<open>remove_from_cluster\<close> take one node or a list of nodes
  (\<open>isinstance(node, list)\<close>); the list form calls the single form for each element and
  stops at the first exception.
\<close>

definition add_to_cluster ::
  "('n, 'l, 'w) Graph \<Rightarrow> 'n \<Rightarrow> 'l \<Rightarrow> error option \<times> ('n, 'l, 'w) Graph" where
  "add_to_cluster G node c =
     (let cs1 = (if c \<notin> fst ` set (clusters G) then AList.update c [] (clusters G)
                 else clusters G);
          cs2 = AList.map_entry c (\<lambda>l. l @ [node]) cs1
      in dunder_add_label (G\<lparr>clusters := cs2\<rparr>) node (Some c))"

fun add_to_cluster_list ::
  "('n, 'l, 'w) Graph \<Rightarrow> 'n list \<Rightarrow> 'l \<Rightarrow> error option \<times> ('n, 'l, 'w) Graph" where
  "add_to_cluster_list G [] c = (None, G)"
| "add_to_cluster_list G (n # ns) c =
     (case add_to_cluster G n c of
        (Some e, G') \<Rightarrow> (Some e, G')
      | (None, G') \<Rightarrow> add_to_cluster_list G' ns c)"

definition first_cluster_of :: "('l \<times> 'n list) list \<Rightarrow> 'n \<Rightarrow> 'l option" where
  \<comment> \<open>the loop over \<open>self.clusters.items()\<close>: the first label, in the dictionary's order,
      whose list holds the node; \<open>None\<close> when there is none.\<close>
  "first_cluster_of cs node = map_option fst (find (\<lambda>p. node \<in> set (snd p)) cs)"

definition remove_from_cluster ::
  "('n, 'l, 'w) Graph \<Rightarrow> 'n \<Rightarrow> 'l \<Rightarrow> error option \<times> ('n, 'l, 'w) Graph" where
  "remove_from_cluster G node c =
     (if c \<notin> fst ` set (clusters G) then (Some ValueError, G)
      else
        (case map_of (clusters G) c of
           None \<Rightarrow> (Some KeyError, G)
         | Some l \<Rightarrow>
            if node \<notin> set l then (Some ValueError, G)
            else
              (let cs = AList.map_entry c (remove1 node) (clusters G)
               in dunder_add_label (G\<lparr>clusters := cs\<rparr>) node (first_cluster_of cs node))))"

fun remove_each ::
  "('n, 'l, 'w) Graph \<Rightarrow> 'n list \<Rightarrow> 'l \<Rightarrow> error option \<times> ('n, 'l, 'w) Graph" where
  "remove_each G [] c = (None, G)"
| "remove_each G (n # ns) c =
     (case remove_from_cluster G n c of
        (Some e, G') \<Rightarrow> (Some e, G')
      | (None, G') \<Rightarrow> remove_each G' ns c)"

definition remove_from_cluster_list ::
  "('n, 'l, 'w) Graph \<Rightarrow> 'n list \<Rightarrow> 'l \<Rightarrow> error option \<times> ('n, 'l, 'w) Graph" where
  "remove_from_cluster_list G ns c =
     (if c \<notin> fst ` set (clusters G) then (Some ValueError, G) else remove_each G ns c)"

definition subscript_self :: "'l \<Rightarrow> error + 'n list" where
  \<comment> \<open>\<open>cluster[cluster]\<close>: a cluster label (a string, a number: any key of the dictionary)
      subscripted by itself is a TypeError.\<close>
  "subscript_self c = Inl TypeError"

definition vs_select_cluster :: "('n, 'l, 'w) igraph \<Rightarrow> 'l \<Rightarrow> error + nat list" where
  \<comment> \<open>igraph's \<open>graph.vs.select(cluster=cluster)\<close>, as \<^const>\<open>vs_select_name\<close>.\<close>
  "vs_select_cluster g c =
     (if vs g = [] then Inl KeyError
      else Inr (filter (\<lambda>i. cluster (vs g ! i) = Some c) [0..<length (vs g)]))"

definition nodes_in_cluster ::
  "('n, 'l, 'w) Graph \<Rightarrow> 'l \<Rightarrow> bool \<Rightarrow> error + ('n list + nat list)" where
  \<comment> \<open>\<open>nodes_in_cluster(cluster, use_dict=True)\<close>: a list of names from the dictionary,
      or a vertex sequence (positions) from the graph.\<close>
  "nodes_in_cluster G c use_dict =
     (if use_dict then map_sum id Inl (subscript_self c)
      else map_sum id Inr (vs_select_cluster (graph G) c))"

subsection \<open>Bounding the out-degree\<close>

text \<open>
  \<open>subgraph(out_degree)\<close> works on a copy of the graph. An igraph \<open>Edge\<close> object is the
  edge's position in the edge list, and \<open>delete()\<close> removes that position.
  igraph's \<open>Vertex.outdegree\<close> is a method (a proxy of \<open>Graph.outdegree()\<close>), and the loop's
  test \<open>vertex.outdegree > out_degree\<close> reads the attribute without calling it: Python 3
  compares a bound method with an integer by raising TypeError.
\<close>

datatype pyobj = BoundMethod | PyInt int

fun py_gt :: "pyobj \<Rightarrow> pyobj \<Rightarrow> error + bool" where
  "py_gt (PyInt a) (PyInt b) = Inr (a > b)"
| "py_gt _ _ = Inl TypeError"

definition vertex_outdegree :: "('n, 'l, 'w) igraph \<Rightarrow> nat \<Rightarrow> pyobj" where
  \<comment> \<open>the attribute \<open>vertex.outdegree\<close>\<close>
  "vertex_outdegree sg v = BoundMethod"

definition incident_out :: "('n, 'l, 'w) igraph \<Rightarrow> nat \<Rightarrow> nat list" where
  \<comment> \<open>\<open>subgraph.incident(vertex, mode=igraph.OUT)\<close>: the edges that leave the vertex,
      in igraph's order, by the vertex they reach.\<close>
  "incident_out sg v =
     sort_key (\<lambda>i. target (es sg ! i))
       (filter (\<lambda>i. source (es sg ! i) = v) [0..<length (es sg)])"

definition min_edge :: "('n, 'l, 'w::linorder) igraph \<Rightarrow> nat list \<Rightarrow> error + nat" where
  \<comment> \<open>\<open>min(edges, key=lambda a: a[Graph.SIM])\<close>: the first edge of least weight.\<close>
  "min_edge sg edges =
     (if edges = [] \<or> list_ex (\<lambda>i. length (es sg) \<le> i) edges then Inl ValueError
      else Inr (arg_min_list (\<lambda>i. weight (es sg ! i)) edges))"

definition delete_edge :: "('n, 'l, 'w) igraph \<Rightarrow> nat \<Rightarrow> ('n, 'l, 'w) igraph" where
  "delete_edge sg i = sg\<lparr>es := take i (es sg) @ drop (Suc i) (es sg)\<rparr>"

partial_function (option) subgraph_while ::
  "('n, 'l, 'w::linorder) igraph \<Rightarrow> nat \<Rightarrow> nat list \<Rightarrow> int \<Rightarrow> (error + ('n, 'l, 'w) igraph) option" where
  "subgraph_while sg v edges out_degree =
     (case py_gt (vertex_outdegree sg v) (PyInt out_degree) of
        Inl e \<Rightarrow> Some (Inl e)
      | Inr b \<Rightarrow>
         if b then
           (case min_edge sg edges of
              Inl e \<Rightarrow> Some (Inl e)
            | Inr i \<Rightarrow> subgraph_while (delete_edge sg i) v edges out_degree)
         else Some (Inr sg))"

fun subgraph_for ::
  "('n, 'l, 'w::linorder) igraph \<Rightarrow> nat list \<Rightarrow> int \<Rightarrow> (error + ('n, 'l, 'w) igraph) option" where
  "subgraph_for sg [] out_degree = Some (Inr sg)"
| "subgraph_for sg (v # rest) out_degree =
     (case subgraph_while sg v (incident_out sg v) out_degree of
        None \<Rightarrow> None
      | Some (Inl e) \<Rightarrow> Some (Inl e)
      | Some (Inr sg') \<Rightarrow> subgraph_for sg' rest out_degree)"

definition subgraph ::
  "('n, 'l, 'w::linorder) Graph \<Rightarrow> int \<Rightarrow> (error + ('n, 'l, 'w) igraph) option" where
  \<comment> \<open>\<open>None\<close>: the loop runs forever.\<close>
  "subgraph G out_degree =
     (let sg = graph G in subgraph_for sg [0..<length (vs sg)] out_degree)"

subsection \<open>Saving and loading\<close>

text \<open>
  The files are a map from a path to what was pickled there; pickling and unpickling
  return the object that was written. \<open>save\<close> writes the igraph graph to \<open>location\<close> and
  the dictionary to \<open>location + '_dict'\<close>.
\<close>

datatype ('n, 'l, 'w) pickled =
    PickledGraph "('n, 'l, 'w) igraph"
  | PickledDict "('l \<times> 'n list) list"

type_synonym ('n, 'l, 'w) files = "string \<Rightarrow> ('n, 'l, 'w) pickled option"

definition save ::
  "('n, 'l, 'w) Graph \<Rightarrow> string \<Rightarrow> ('n, 'l, 'w) files \<Rightarrow> ('n, 'l, 'w) files" where
  "save G location fs =
     (fs(location \<mapsto> PickledGraph (graph G)))
       (location @ ''_dict'' \<mapsto> PickledDict (clusters G))"

definition load :: "('n, 'l, 'w) files \<Rightarrow> string \<Rightarrow> error + ('n, 'l, 'w) Graph" where
  \<comment> \<open>\<open>Read_Pickle\<close> refuses an object that is not a graph (TypeError). Where the
      second file holds something else than a dictionary the code returns a \<open>Graph\<close> whose
      \<open>clusters\<close> is that object; the type of \<open>clusters\<close> here cannot hold it, and the
      branch stands for it as an error. \<open>save\<close> never writes such a file.\<close>
  "load fs location =
     (case fs location of
        None \<Rightarrow> Inl FileNotFoundError
      | Some (PickledDict d) \<Rightarrow> Inl TypeError
      | Some (PickledGraph g) \<Rightarrow>
         (let G = Graph_init (Some g)
          in (case fs (location @ ''_dict'') of
                None \<Rightarrow> Inl FileNotFoundError
              | Some (PickledGraph g') \<Rightarrow> Inl TypeError
              | Some (PickledDict d) \<Rightarrow> Inr (G\<lparr>clusters := d\<rparr>))))"

section \<open>From a similarity table to a graph\<close>

text \<open>
  A pandas \<open>DataFrame\<close>: the row labels, the column labels and the rows. A row read from
  it (a \<open>Series\<close>) is the list of its labelled entries.
\<close>

record ('r, 'c, 'w) frame =
  index :: "'r list"
  columns :: "'c list"
  vals :: "'w list list"

definition sort_values_desc :: "('c \<times> 'w::linorder) list \<Rightarrow> ('c \<times> 'w) list" where
  \<comment> \<open>\<open>Series.sort_values(ascending=False)\<close>: the argsort by increasing value,
      reversed. The order among equal values is the library's (here: the reverse of
      their original order); the rows evaluated below have no equal values.\<close>
  "sort_values_desc s = rev (sort_key snd s)"

definition frame_loc :: "('r, 'c, 'w) frame \<Rightarrow> 'r \<Rightarrow> error + ('c \<times> 'w) list" where
  \<comment> \<open>\<open>similarity.loc[photo]\<close> followed by a method of \<open>Series\<close>: a label that is
      missing is a KeyError; a repeated label selects a \<open>DataFrame\<close>, whose
      \<open>sort_values\<close> without \<open>by\<close> is a TypeError.\<close>
  "frame_loc df p =
     (case filter (\<lambda>q. fst q = p) (zip (index df) (vals df)) of
        [] \<Rightarrow> Inl KeyError
      | [q] \<Rightarrow> Inr (zip (columns df) (snd q))
      | _ \<Rightarrow> Inl TypeError)"

fun add_similarity_for ::
  "(int, 'l, 'w::linorder) Graph \<Rightarrow> (int, int, 'w) frame \<Rightarrow> int list
   \<Rightarrow> error option \<times> (int, 'l, 'w) Graph" where
  \<comment> \<open>the loop over the photos; the identifiers are integers, on which \<open>int(photo)\<close>
      and \<open>int(other)\<close> are the identity.\<close>
  "add_similarity_for G similarity [] = (None, G)"
| "add_similarity_for G similarity (photo # rest) =
     (case frame_loc similarity photo of
        Inl e \<Rightarrow> (Some e, G)
      | Inr r \<Rightarrow>
         (let row = sort_values_desc r;
              edges = map (\<lambda>other. (photo, other)) (map fst row);
              weights = map snd row
          in (case dunder_add_edges G edges weights of
                (Some e, G') \<Rightarrow> (Some e, G')
              | (None, G') \<Rightarrow> add_similarity_for G' similarity rest)))"

definition add_similarity ::
  "(int, 'l, 'w::linorder) Graph \<Rightarrow> (int, int, 'w) frame \<Rightarrow> error option \<times> (int, 'l, 'w) Graph" where
  \<comment> \<open>a table whose row and column labels are integers (photo identifiers);
      comparing two indexes of different lengths is a ValueError.\<close>
  "add_similarity G similarity =
     (if length (index similarity) \<noteq> length (columns similarity) then (Some ValueError, G)
      else if index similarity \<noteq> columns similarity then (Some AssertionError, G)
      else
        (let photos = index similarity
         in add_similarity_for (add_vertices G photos) similarity photos))"

subsection \<open>The similarity matrix of \<open>make_graphs\<close>\<close>

definition dot :: "real list \<Rightarrow> real list \<Rightarrow> real" where
  "dot u v = sum_list (map2 (*) u v)"

definition cosine :: "real list \<Rightarrow> real list \<Rightarrow> real" where
  "cosine u v = dot u v / (sqrt (dot u u) * sqrt (dot v v))"

definition cosine_similarity ::
  "('r, 'c, real) frame \<Rightarrow> ('r, 'c, real) frame \<Rightarrow> ('r, 'r, real) frame" where
  \<comment> \<open>Modelled from the spec: \<open>Similarity.cosine_similarity\<close> of the module \<open>distance\<close>,
      which is not among the sources. The spec: pairwise cosine similarity between the
      entities of a feature table, a square matrix indexed by the same identifiers on
      both axes; the cosine of the angle between two feature vectors, over the reals.\<close>
  "cosine_similarity a b =
     \<lparr>index = index a, columns = index b,
      vals = map (\<lambda>u. map (\<lambda>v. cosine u v) (vals b)) (vals a)\<rparr>"

definition zero_diagonal :: "'w::zero list list \<Rightarrow> 'w list list" where
  \<comment> \<open>\<open>similarity.values[[np.arange(length)]*2] = 0\<close> on a square matrix\<close>
  "zero_diagonal m = map (\<lambda>i. (m ! i)[i := 0]) [0..<length m]"

definition similarity_matrix :: "('r, 'c, real) frame \<Rightarrow> error + ('r, 'r, real) frame" where
  \<comment> \<open>\<open>make_graphs\<close> up to the zeroed diagonal; \<open>all_photos\<close> is the table that
      \<open>db.get_vis_table()\<close> returns.\<close>
  "similarity_matrix all_photos =
     (let similarity = cosine_similarity all_photos all_photos
      in if length (index similarity) \<noteq> length (columns similarity) then Inl AssertionError
         else Inr (similarity\<lparr>vals := zero_diagonal (vals similarity)\<rparr>))"

subsection \<open>The neighbour maps of \<open>make_graphs\<close>\<close>

definition py_slice_to :: "int \<Rightarrow> 'a list \<Rightarrow> 'a list" where
  \<comment> \<open>\<open>xs[:k]\<close>: a negative \<open>k\<close> counts from the end.\<close>
  "py_slice_to k xs = (if 0 \<le> k then take (nat k) xs else take (length xs - nat (- k)) xs)"

definition top_k :: "int \<Rightarrow> ('c \<times> 'w::linorder) list \<Rightarrow> ('c \<times> 'w) list" where
  \<comment> \<open>the inner dictionary of one row: the first \<open>k\<close> labels of the sorted row, each
      assigned its value \<open>sorted_row[key]\<close>.\<close>
  "top_k k row =
     (let sorted_row = sort_values_desc row;
          keys = map fst (py_slice_to k sorted_row)
      in fold (\<lambda>key d. case map_of sorted_row key of
                          None \<Rightarrow> d
                        | Some w \<Rightarrow> AList.update key w d) keys [])"

definition frame_iloc :: "('r, 'c, 'w) frame \<Rightarrow> nat \<Rightarrow> ('c \<times> 'w) list" where
  "frame_iloc df i = zip (columns df) (vals df ! i)"

definition edge_dict_of ::
  "int \<Rightarrow> ('r, 'c, 'w::linorder) frame \<Rightarrow> ('r \<times> ('c \<times> 'w) list) list" where
  "edge_dict_of k similarity =
     fold (\<lambda>i d. AList.update (index similarity ! i) (top_k k (frame_iloc similarity i)) d)
       [0..<length (vals similarity)] []"

definition min_key :: "('c \<times> 'w::linorder) list \<Rightarrow> 'c" where
  \<comment> \<open>\<open>min(d, key=d.get)\<close>: the first key, in the dictionary's order, of least value.\<close>
  "min_key d = fst (arg_min_list snd d)"

function shrink :: "int \<Rightarrow> ('c \<times> 'w::linorder) list \<Rightarrow> error + ('c \<times> 'w) list" where
  \<comment> \<open>\<open>while len(d) > bound: d.pop(min(d, key=d.get))\<close>; \<open>min\<close> of an empty dictionary
      is a ValueError.\<close>
  "shrink bound d =
     (if int (length d) > bound then
        (if d = [] then Inl ValueError else shrink bound (AList.delete (min_key d) d))
      else Inr d)"
  by pat_completeness auto
termination
proof (relation "measure (\<lambda>(bound, d). length d)")
  show "wf (measure (\<lambda>(bound, d). length d))" by simp
next
  fix bound :: int and d :: "('c \<times> 'w::linorder) list"
  assume "d \<noteq> []"
  then have "arg_min_list snd d \<in> set d" by (rule arg_min_list_in)
  then have "length (AList.delete (min_key d) d) < length d"
    unfolding AList.delete_eq
    by (intro length_filter_less[where x = "arg_min_list snd d"])
       (simp_all add: min_key_def case_prod_unfold)
  then show "((bound, AList.delete (min_key d) d), (bound, d)) \<in> measure (\<lambda>(bound, d). length d)"
    by simp
qed

fun shrink_rows ::
  "int \<Rightarrow> ('r \<times> ('c \<times> 'w::linorder) list) list \<Rightarrow> error + ('r \<times> ('c \<times> 'w) list) list" where
  \<comment> \<open>\<open>for key in working: while len(working[key]) > k: ...\<close>\<close>
  "shrink_rows bound [] = Inr []"
| "shrink_rows bound ((key, d) # rest) =
     (case shrink bound d of
        Inl e \<Rightarrow> Inl e
      | Inr d' \<Rightarrow>
         (case shrink_rows bound rest of
            Inl e \<Rightarrow> Inl e
          | Inr rest' \<Rightarrow> Inr ((key, d') # rest')))"

definition choose_k :: "int option \<Rightarrow> int list \<Rightarrow> error + int \<times> int list" where
  \<comment> \<open>\<open>k = max(all_ks)\<close> when \<open>k\<close> is \<open>None\<close>, else \<open>all_ks = [k]\<close>\<close>
  "choose_k k all_ks =
     (case k of
        None \<Rightarrow> (case all_ks of [] \<Rightarrow> Inl ValueError | a # as \<Rightarrow> Inr (fold max as a, all_ks))
      | Some k' \<Rightarrow> Inr (k', [k']))"

fun make_graphs_for ::
  "int \<Rightarrow> ('r \<times> ('r \<times> real) list) list \<Rightarrow> int list \<Rightarrow> error + ('r, 'l, real) Graph" where
  \<comment> \<open>the loop over \<open>all_ks\<close>. The inner dictionaries are shared with \<open>edge_dict\<close> (the
      copy is shallow). \<open>class Graph\<close> has no method \<open>add_edge_dict\<close>, so the first
      round ends in an AttributeError.\<close>
  "make_graphs_for k edge_dict [] = Inl UnboundLocalError"
| "make_graphs_for k edge_dict (nearest # rest) =
     (case shrink_rows k edge_dict of
        Inl e \<Rightarrow> Inl e
      | Inr working \<Rightarrow> Inl AttributeError)"

definition make_graphs ::
  "('r, 'c, real) frame \<Rightarrow> int option \<Rightarrow> int list \<Rightarrow> error + ('r, 'l, real) Graph" where
  "make_graphs all_photos k all_ks =
     (case choose_k k all_ks of
        Inl e \<Rightarrow> Inl e
      | Inr (k', all_ks') \<Rightarrow>
         (case similarity_matrix all_photos of
            Inl e \<Rightarrow> Inl e
          | Inr similarity \<Rightarrow>
             make_graphs_for k' (edge_dict_of k' similarity) (rev (sort all_ks'))))"

section \<open>Well-formed graphs and test data\<close>

definition igraph_ok :: "('n, 'l, 'w) igraph \<Rightarrow> bool" where
  \<comment> \<open>igraph's own invariant: both ends of an edge are vertices of the graph.\<close>
  "igraph_ok g = list_all (\<lambda>e. source e < length (vs g) \<and> target e < length (vs g)) (es g)"

definition driver_graph :: "(string, string, int) Graph" where
  \<comment> \<open>the vertices of \<open>GraphDriver.test\<close>, with three edges out of \<open>foo\<close>.\<close>
  "driver_graph =
     \<lparr>graph = \<lparr>vs = [\<lparr>name = ''foo'', cluster = None\<rparr>, \<lparr>name = ''bar'', cluster = None\<rparr>,
                      \<lparr>name = ''baz'', cluster = None\<rparr>],
                es = [\<lparr>source = 0, target = 1, weight = 1\<rparr>, \<lparr>source = 0, target = 2, weight = 2\<rparr>,
                      \<lparr>source = 0, target = 0, weight = 3\<rparr>]\<rparr>,
      clusters = []\<rparr>"

definition labelled_graph :: "(string, string, int) Graph" where
  \<comment> \<open>after \<open>add_to_cluster('bar', 'C2')\<close> on two vertices\<close>
  "labelled_graph =
     \<lparr>graph = \<lparr>vs = [\<lparr>name = ''foo'', cluster = None\<rparr>, \<lparr>name = ''bar'', cluster = Some ''C2''\<rparr>],
                es = []\<rparr>,
      clusters = [(''C2'', [''bar''])]\<rparr>"

definition repeated_graph :: "(string, string, int) Graph" where
  \<comment> \<open>after \<open>add_to_cluster('foo', 'C1')\<close> twice\<close>
  "repeated_graph =
     \<lparr>graph = \<lparr>vs = [\<lparr>name = ''foo'', cluster = Some ''C1''\<rparr>], es = []\<rparr>,
      clusters = [(''C1'', [''foo'', ''foo''])]\<rparr>"

definition shared_graph :: "(string, string, int) Graph" where
  \<comment> \<open>after \<open>add_to_cluster(['foo', 'bar'], 'C1')\<close> and \<open>add_to_cluster('bar', 'C2')\<close>\<close>
  "shared_graph =
     \<lparr>graph = \<lparr>vs = [\<lparr>name = ''foo'', cluster = Some ''C1''\<rparr>, \<lparr>name = ''bar'', cluster = Some ''C2''\<rparr>],
                es = []\<rparr>,
      clusters = [(''C1'', [''foo'', ''bar'']), (''C2'', [''bar''])]\<rparr>"

definition sim2 :: "(int, int, int) frame" where
  \<comment> \<open>a similarity table of two photos, with its diagonal at 0\<close>
  "sim2 = \<lparr>index = [1, 2], columns = [1, 2], vals = [[0, 5], [5, 0]]\<rparr>"

definition photos2 :: "(int, string, real) frame" where
  \<comment> \<open>a feature table of two photos\<close>
  "photos2 = \<lparr>index = [1, 2], columns = [''f1'', ''f2''], vals = [[3, 4], [4, 3]]\<rparr>"

definition photos3 :: "(int, string, real) frame" where
  \<comment> \<open>a feature table of three photos\<close>
  "photos3 = \<lparr>index = [1, 2, 3], columns = [''f1'', ''f2''], vals = [[3, 4], [4, 3], [5, 0]]\<rparr>"

definition sim3 :: "(int, int, real) frame" where
  \<comment> \<open>the cosine similarities of \<open>photos3\<close>, with the diagonal at 0\<close>
  "sim3 = \<lparr>index = [1, 2, 3], columns = [1, 2, 3],
           vals = [[0, 24 / 25, 3 / 5], [24 / 25, 0, 4 / 5], [3 / 5, 4 / 5, 0]]\<rparr>"

section \<open>Properties\<close>

subsection \<open>Looking vertices up and adding edges\<close>

lemma get_node_error:
  "dunder_get_node_by_name g n = Inl e \<Longrightarrow> e = (if vs g = [] then KeyError else ValueError)"
  by (auto simp: dunder_get_node_by_name_def vs_select_name_def split: if_splits)

lemma get_node_unknown:
  assumes "n \<notin> name ` set (vs g)"
  shows "dunder_get_node_by_name g n = Inl (if vs g = [] then KeyError else ValueError)"
proof -
  have "filter (\<lambda>i. name (vs g ! i) = n) [0..<length (vs g)] = []"
    using assms by (auto simp: filter_empty_conv)
  then show ?thesis
    by (simp add: dunder_get_node_by_name_def vs_select_name_def)
qed

lemma get_nodes_unknown:
  assumes "list_ex (\<lambda>p. fst p \<notin> name ` set (vs g) \<or> snd p \<notin> name ` set (vs g)) ps"
  shows "get_nodes g ps = Inl (if vs g = [] then KeyError else ValueError)"
  using assms
proof (induction ps)
  case Nil
  then show ?case by simp
next
  case (Cons p ps)
  obtain e1 e2 where p: "p = (e1, e2)" by (cases p)
  show ?case
  proof (cases "e1 \<in> name ` set (vs g) \<and> e2 \<in> name ` set (vs g)")
    case True
    with Cons.prems p
    have "list_ex (\<lambda>p. fst p \<notin> name ` set (vs g) \<or> snd p \<notin> name ` set (vs g)) ps"
      by auto
    then have "get_nodes g ps = Inl (if vs g = [] then KeyError else ValueError)"
      by (rule Cons.IH)
    then show ?thesis unfolding p
      by (auto split: sum.splits dest: get_node_error)
  next
    case False
    then show ?thesis unfolding p
      by (auto split: sum.splits dest: get_node_error simp: get_node_unknown)
  qed
qed

lemma map2_mk_iedge_id:
  "map2 mk_iedge (map (\<lambda>e. (source e, target e)) xs) (map weight xs) = xs"
  by (induction xs) (simp_all add: mk_iedge_def)

lemma dunder_add_edges_ok:
  assumes "get_nodes (graph G) edges = Inr new"
  shows "dunder_add_edges G edges weights =
         (None, G\<lparr>graph := (graph G)\<lparr>es := es (graph G) @ map2 mk_iedge new weights\<rparr>\<rparr>)"
  using assms by (simp add: dunder_add_edges_def Let_def map2_mk_iedge_id)



text \<open>
  Claim C9. When an edge passed to \<open>add_edges\<close> has a start or an end that names no vertex
  of the graph, the call ends in an exception and the object is what it was before the
  call: its vertices, edges, weights and cluster dictionary. The exception is the
  ValueError of \<open>__get_node_by_name__\<close>, or igraph's KeyError when the graph has no vertex
  at all; every lookup is made before the graph is touched.
\<close>

theorem add_edges_unknown_vertex:
  assumes "list_ex (\<lambda>e. edge_start e \<notin> name ` set (vs (graph G)) \<or>
                        edge_end e \<notin> name ` set (vs (graph G))) edges"
  shows "add_edges G edges = (Some (if vs (graph G) = [] then KeyError else ValueError), G)"
proof -
  have "list_ex (\<lambda>p. fst p \<notin> name ` set (vs (graph G)) \<or> snd p \<notin> name ` set (vs (graph G)))
          (map (\<lambda>edge. (edge_start edge, edge_end edge)) edges)"
    using assms by (simp add: list_ex_iff)
  then show ?thesis
    by (simp add: add_edges_def dunder_add_edges_def get_nodes_unknown)
qed

theorem add_edges_unknown_vertex_witness:
  "list_ex (\<lambda>e. edge_start e \<notin> name ` set (vs (graph driver_graph)) \<or>
                 edge_end e \<notin> name ` set (vs (graph driver_graph)))
     [Edge ''bar'' ''baz'' 4, Edge ''foo'' ''nodes'' 6]
   \<and> add_edges driver_graph [Edge ''bar'' ''baz'' 4, Edge ''foo'' ''nodes'' 6] =
       (Some ValueError, driver_graph)"
proof -
  have h: "list_ex (\<lambda>e. edge_start e \<notin> name ` set (vs (graph driver_graph)) \<or>
                         edge_end e \<notin> name ` set (vs (graph driver_graph)))
             [Edge ''bar'' ''baz'' 4, Edge ''foo'' ''nodes'' 6]"
    by (simp add: driver_graph_def)
  have v: "vs (graph driver_graph) \<noteq> []"
    by (simp add: driver_graph_def)
  show ?thesis
    using add_edges_unknown_vertex[OF h] h v by simp
qed




subsection \<open>Cluster labels\<close>

lemma get_node_names:
  assumes "map name (vs g') = map name (vs g)"
  shows "dunder_get_node_by_name g' n = dunder_get_node_by_name g n"
proof -
  have len: "length (vs g') = length (vs g)"
    using assms by (metis length_map)
  have "\<And>i. i < length (vs g) \<Longrightarrow> name (vs g' ! i) = name (vs g ! i)"
    using assms len by (metis nth_map)
  then have "filter (\<lambda>i. name (vs g' ! i) = n) [0..<length (vs g)]
           = filter (\<lambda>i. name (vs g ! i) = n) [0..<length (vs g)]"
    by (intro filter_cong) auto
  moreover have "vs g' = [] \<longleftrightarrow> vs g = []"
    using len by auto
  ultimately show ?thesis
    by (simp add: dunder_get_node_by_name_def vs_select_name_def len)
qed

lemma get_node_bound:
  assumes "dunder_get_node_by_name g n = Inr i"
  shows "i < length (vs g)"
proof -
  let ?sel = "filter (\<lambda>i. name (vs g ! i) = n) [0..<length (vs g)]"
  from assms have "length ?sel = 1" and "i = ?sel ! 0"
    by (auto simp: dunder_get_node_by_name_def vs_select_name_def split: if_splits)
  then have "i \<in> set ?sel"
    by (metis nth_mem zero_less_one)
  then show ?thesis by simp
qed

lemma names_relabel: "map name (xs[i := (xs ! i)\<lparr>cluster := v\<rparr>]) = map name xs"
proof (rule nth_equalityI)
  show "length (map name (xs[i := (xs ! i)\<lparr>cluster := v\<rparr>])) = length (map name xs)"
    by simp
next
  fix j
  assume "j < length (map name (xs[i := (xs ! i)\<lparr>cluster := v\<rparr>]))"
  then have "j < length xs" by simp
  then show "map name (xs[i := (xs ! i)\<lparr>cluster := v\<rparr>]) ! j = map name xs ! j"
    by (cases "j = i") simp_all
qed

lemma dunder_add_label_ok:
  assumes "dunder_get_node_by_name (graph G) n = Inr i"
  shows "dunder_add_label G n v =
         (None, G\<lparr>graph := (graph G)\<lparr>vs := (vs (graph G))[i := (vs (graph G) ! i)\<lparr>cluster := v\<rparr>]\<rparr>\<rparr>)"
  using assms by (simp add: dunder_add_label_def Let_def)

lemma count_list_remove1:
  "x \<in> set xs \<Longrightarrow> count_list (remove1 x xs) x = count_list xs x - 1"
  by (induction xs) auto

lemma map_entry_map_entry:
  "AList.map_entry k f (AList.map_entry k g xs) = AList.map_entry k (f \<circ> g) xs"
  by (induction xs) auto

lemma set_map_entry: "p \<in> set (AList.map_entry k f xs) \<Longrightarrow> p \<in> set xs \<or> fst p = k"
  by (induction xs) (auto split: if_splits)

lemma set_update: "p \<in> set (AList.update k v xs) \<Longrightarrow> p \<in> set xs \<or> fst p = k"
  by (induction xs) (auto split: if_splits)

lemma first_cluster_of_Some:
  assumes "\<And>p. p \<in> set cs \<Longrightarrow> n \<in> set (snd p) \<Longrightarrow> fst p = L"
      and "(L, l) \<in> set cs" and "n \<in> set l"
  shows "first_cluster_of cs n = Some L"
proof (cases "find (\<lambda>p. n \<in> set (snd p)) cs")
  case None
  with assms(2,3) show ?thesis by (auto simp: find_None_iff)
next
  case (Some p)
  then have "p \<in> set cs" and "n \<in> set (snd p)"
    by (auto simp: find_Some_iff)
  with assms(1) Some show ?thesis by (simp add: first_cluster_of_def)
qed

lemma first_cluster_of_None:
  "first_cluster_of cs n = None \<longleftrightarrow> list_all (\<lambda>p. n \<notin> set (snd p)) cs"
  by (auto simp: first_cluster_of_def find_None_iff list_all_iff)

lemma first_cluster_of_mem:
  assumes "first_cluster_of cs n = Some L'"
  shows "\<exists>l'. (L', l') \<in> set cs \<and> n \<in> set l'"
proof -
  from assms obtain p where "find (\<lambda>p. n \<in> set (snd p)) cs = Some p" and "fst p = L'"
    by (auto simp: first_cluster_of_def)
  then have "p \<in> set cs \<and> n \<in> set (snd p)"
    by (auto simp: find_Some_iff)
  with \<open>fst p = L'\<close> show ?thesis by (cases p) auto
qed

lemma add_to_cluster_ok:
  assumes "dunder_get_node_by_name (graph G) n = Inr i"
  shows "add_to_cluster G n L =
     (None, G\<lparr>clusters := AList.map_entry L (\<lambda>l. l @ [n])
                  (if L \<notin> fst ` set (clusters G) then AList.update L [] (clusters G) else clusters G),
              graph := (graph G)\<lparr>vs := (vs (graph G))[i := (vs (graph G) ! i)\<lparr>cluster := Some L\<rparr>]\<rparr>\<rparr>)"
  using assms by (simp add: add_to_cluster_def Let_def dunder_add_label_ok)

lemma map_of_new_cluster:
  "map_of (if L \<notin> fst ` set cs then AList.update L [] cs else cs) L
   = Some (case map_of cs L of None \<Rightarrow> [] | Some l \<Rightarrow> l)"
  by (auto simp: AList.update_conv' map_of_eq_None_iff[symmetric] split: option.splits)


lemma add_to_cluster_result:
  assumes "dunder_get_node_by_name (graph G) n = Inr i"
  obtains G' where "add_to_cluster G n L = (None, G')"
    and "dunder_get_node_by_name (graph G') n = Inr i"
    and "map_of (clusters G') L = Some ((case map_of (clusters G) L of None \<Rightarrow> [] | Some l \<Rightarrow> l) @ [n])"
    and "\<And>p. p \<in> set (clusters G') \<Longrightarrow> p \<in> set (clusters G) \<or> fst p = L"
proof -
  let ?cs1 = "if L \<notin> fst ` set (clusters G) then AList.update L [] (clusters G) else clusters G"
  let ?G' = "G\<lparr>clusters := AList.map_entry L (\<lambda>l. l @ [n]) ?cs1,
              graph := (graph G)\<lparr>vs := (vs (graph G))[i := (vs (graph G) ! i)\<lparr>cluster := Some L\<rparr>]\<rparr>\<rparr>"
  have 1: "add_to_cluster G n L = (None, ?G')"
    by (rule add_to_cluster_ok[OF assms])
  have 2: "dunder_get_node_by_name (graph ?G') n = Inr i"
    using assms get_node_names[of "graph ?G'" "graph G" n] by (simp add: names_relabel)
  have 3: "map_of (clusters ?G') L
           = Some ((case map_of (clusters G) L of None \<Rightarrow> [] | Some l \<Rightarrow> l) @ [n])"
    by (simp add: map_of_map_entry map_of_new_cluster del: AList.map_entry.simps)
  have 4: "p \<in> set (clusters G) \<or> fst p = L" if "p \<in> set (clusters ?G')" for p
  proof -
    from that have "p \<in> set ?cs1 \<or> fst p = L"
      using set_map_entry[of p L _ ?cs1] by simp
    then show ?thesis
      using set_update[of p L "[]" "clusters G"] by (auto split: if_splits)
  qed
  show thesis
    using that[OF 1 2 3 4] by blast
qed

text \<open>
  Claim C10, as the code has it. For a node \<open>n\<close> that names one vertex, two calls of
  \<open>add_to_cluster(n, L)\<close> append \<open>n\<close> twice to the list of \<open>L\<close>, and one call of
  \<open>remove_from_cluster(n, L)\<close> then removes one occurrence: \<open>n\<close> is still in the list
  of \<open>L\<close>, once more than before the three calls. The label of the vertex becomes the
  first label of the dictionary whose list holds \<open>n\<close>; that is \<open>L\<close> when no list of
  another label held \<open>n\<close>.
\<close>

theorem add_twice_remove_once:
  assumes node: "dunder_get_node_by_name (graph G) n = Inr i"
      and l0: "l0 = (case map_of (clusters G) L of None \<Rightarrow> [] | Some l \<Rightarrow> l)"
      and a1: "add_to_cluster G n L = (e1, G1)"
      and a2: "add_to_cluster G1 n L = (e2, G2)"
      and r3: "remove_from_cluster G2 n L = (e3, G3)"
  shows "e1 = None \<and> e2 = None \<and> e3 = None
         \<and> map_of (clusters G2) L = Some (l0 @ [n, n])
         \<and> map_of (clusters G3) L = Some (remove1 n (l0 @ [n, n]))
         \<and> n \<in> set (remove1 n (l0 @ [n, n]))
         \<and> count_list (remove1 n (l0 @ [n, n])) n = count_list l0 n + 1
         \<and> cluster (vs (graph G3) ! i) = first_cluster_of (clusters G3) n
         \<and> (list_all (\<lambda>p. fst p = L \<or> n \<notin> set (snd p)) (clusters G)
              \<longrightarrow> cluster (vs (graph G3) ! i) = Some L)"
proof -
  obtain G1' where s1: "add_to_cluster G n L = (None, G1')"
    and n1: "dunder_get_node_by_name (graph G1') n = Inr i"
    and m1: "map_of (clusters G1') L = Some (l0 @ [n])"
    and p1: "\<And>p. p \<in> set (clusters G1') \<Longrightarrow> p \<in> set (clusters G) \<or> fst p = L"
    using add_to_cluster_result[OF node, of L] unfolding l0 by blast
  from s1 a1 have e1: "e1 = None" and G1: "G1 = G1'" by simp_all
  obtain G2' where s2: "add_to_cluster G1 n L = (None, G2')"
    and n2: "dunder_get_node_by_name (graph G2') n = Inr i"
    and m2': "map_of (clusters G2') L
              = Some ((case map_of (clusters G1) L of None \<Rightarrow> [] | Some l \<Rightarrow> l) @ [n])"
    and p2: "\<And>p. p \<in> set (clusters G2') \<Longrightarrow> p \<in> set (clusters G1) \<or> fst p = L"
    using add_to_cluster_result[of G1 n i L] n1 unfolding G1 by blast
  from s2 a2 have e2: "e2 = None" and G2: "G2 = G2'" by simp_all
  have m2: "map_of (clusters G2) L = Some (l0 @ [n, n])"
    using m2' m1 by (simp add: G1 G2)
  have key2: "L \<in> fst ` set (clusters G2)"
    using m2 by (metis domI dom_map_of_conv_image_fst)
  let ?cs3 = "AList.map_entry L (remove1 n) (clusters G2)"
  have n2c: "dunder_get_node_by_name (graph (G2\<lparr>clusters := ?cs3\<rparr>)) n = Inr i"
    using n2 by (simp add: G2)
  have rm: "remove_from_cluster G2 n L =
            (None, G2\<lparr>clusters := ?cs3,
                      graph := (graph G2)\<lparr>vs := (vs (graph G2))
                         [i := (vs (graph G2) ! i)\<lparr>cluster := first_cluster_of ?cs3 n\<rparr>]\<rparr>\<rparr>)"
    using key2 m2 dunder_add_label_ok[OF n2c]
    by (simp add: remove_from_cluster_def Let_def del: AList.map_entry.simps)
  from rm r3 have e3: "e3 = None"
    and G3: "G3 = G2\<lparr>clusters := ?cs3,
                      graph := (graph G2)\<lparr>vs := (vs (graph G2))
                         [i := (vs (graph G2) ! i)\<lparr>cluster := first_cluster_of ?cs3 n\<rparr>]\<rparr>\<rparr>"
    by simp_all
  have c3: "clusters G3 = ?cs3" by (simp add: G3)
  have m3: "map_of (clusters G3) L = Some (remove1 n (l0 @ [n, n]))"
    using m2 by (simp add: c3 map_of_map_entry del: AList.map_entry.simps)
  have in3: "n \<in> set (remove1 n (l0 @ [n, n]))"
    by (cases "n \<in> set l0") (simp_all add: remove1_append)
  have cnt: "count_list (remove1 n (l0 @ [n, n])) n = count_list l0 n + 1"
    by (simp add: count_list_remove1)
  have ilen: "i < length (vs (graph G2))"
    using get_node_bound[OF n2] by (simp add: G2)
  have lbl: "cluster (vs (graph G3) ! i) = first_cluster_of (clusters G3) n"
    using ilen by (simp add: G3)
  have only: "cluster (vs (graph G3) ! i) = Some L"
    if all: "list_all (\<lambda>p. fst p = L \<or> n \<notin> set (snd p)) (clusters G)"
  proof -
    have "fst p = L" if "p \<in> set (clusters G3)" and "n \<in> set (snd p)" for p
    proof -
      from that(1) have "p \<in> set (clusters G2) \<or> fst p = L"
        unfolding c3 by (rule set_map_entry)
      then have "p \<in> set (clusters G) \<or> fst p = L"
        using p1[of p] p2[of p] unfolding G1 G2 by blast
      with all that(2) show ?thesis by (auto simp: list_all_iff)
    qed
    moreover have "(L, remove1 n (l0 @ [n, n])) \<in> set (clusters G3)"
      using m3 by (rule map_of_SomeD)
    ultimately have "first_cluster_of (clusters G3) n = Some L"
      using in3 by (intro first_cluster_of_Some[where l = "remove1 n (l0 @ [n, n])"]) auto
    with lbl show ?thesis by simp
  qed
  from e1 e2 e3 m2 m3 in3 cnt lbl only show ?thesis by blast
qed


theorem add_twice_remove_once_witness:
  "dunder_get_node_by_name (graph labelled_graph) ''foo'' = Inr 0
   \<and> list_all (\<lambda>p. fst p = ''C1'' \<or> ''foo'' \<notin> set (snd p)) (clusters labelled_graph)
   \<and> (let G1 = snd (add_to_cluster labelled_graph ''foo'' ''C1'');
           G2 = snd (add_to_cluster G1 ''foo'' ''C1'');
           G3 = snd (remove_from_cluster G2 ''foo'' ''C1'')
       in fst (remove_from_cluster G2 ''foo'' ''C1'') = None
          \<and> map_of (clusters G2) ''C1'' = Some [''foo'', ''foo'']
          \<and> map_of (clusters G3) ''C1'' = Some [''foo'']
          \<and> cluster (vs (graph G3) ! 0) = Some ''C1'')"
proof -
  have node: "dunder_get_node_by_name (graph labelled_graph) ''foo'' = Inr 0"
    by (simp add: labelled_graph_def dunder_get_node_by_name_def vs_select_name_def upt_rec)
  have all: "list_all (\<lambda>p. fst p = ''C1'' \<or> ''foo'' \<notin> set (snd p)) (clusters labelled_graph)"
    by (simp add: labelled_graph_def)
  have l0: "[] = (case map_of (clusters labelled_graph) ''C1'' of None \<Rightarrow> [] | Some l \<Rightarrow> l)"
    by (simp add: labelled_graph_def)
  define G1 where "G1 = snd (add_to_cluster labelled_graph ''foo'' ''C1'')"
  define G2 where "G2 = snd (add_to_cluster G1 ''foo'' ''C1'')"
  define G3 where "G3 = snd (remove_from_cluster G2 ''foo'' ''C1'')"
  have a1: "add_to_cluster labelled_graph ''foo'' ''C1''
            = (fst (add_to_cluster labelled_graph ''foo'' ''C1''), G1)"
    by (simp add: G1_def)
  have a2: "add_to_cluster G1 ''foo'' ''C1'' = (fst (add_to_cluster G1 ''foo'' ''C1''), G2)"
    by (simp add: G2_def)
  have r3: "remove_from_cluster G2 ''foo'' ''C1''
            = (fst (remove_from_cluster G2 ''foo'' ''C1''), G3)"
    by (simp add: G3_def)
  note t = add_twice_remove_once[OF node l0 a1 a2 r3]
  from t have e3: "fst (remove_from_cluster G2 ''foo'' ''C1'') = None"
    by blast
  from t have "map_of (clusters G2) ''C1'' = Some ([] @ [''foo'', ''foo''])"
    by blast
  then have m2: "map_of (clusters G2) ''C1'' = Some [''foo'', ''foo'']"
    by simp
  from t have "map_of (clusters G3) ''C1'' = Some (remove1 ''foo'' ([] @ [''foo'', ''foo'']))"
    by blast
  then have m3: "map_of (clusters G3) ''C1'' = Some [''foo'']"
    by simp
  from t all have lbl: "cluster (vs (graph G3) ! 0) = Some ''C1''"
    by blast
  from e3 m2 m3 lbl node all show ?thesis
    unfolding G1_def G2_def G3_def Let_def by blast
qed

text \<open>
  Claim C10 as stated fails where the node is already in a cluster created before \<open>L\<close>:
  \<open>bar\<close> is in \<open>C2\<close>; after two additions to \<open>C1\<close> and one removal from \<open>C1\<close> its label
  is \<open>C2\<close>, not \<open>C1\<close>.
\<close>

theorem label_after_remove_counterexample:
  "(let G1 = snd (add_to_cluster labelled_graph ''bar'' ''C1'');
        G2 = snd (add_to_cluster G1 ''bar'' ''C1'');
        G3 = snd (remove_from_cluster G2 ''bar'' ''C1'')
    in fst (add_to_cluster labelled_graph ''bar'' ''C1'') = None
       \<and> fst (add_to_cluster G1 ''bar'' ''C1'') = None
       \<and> fst (remove_from_cluster G2 ''bar'' ''C1'') = None
       \<and> name (vs (graph G3) ! 1) = ''bar''
       \<and> cluster (vs (graph G3) ! 1) = Some ''C2'')"
proof -
  define vs1 :: "(string, string) vertex list"
    where "vs1 = [\<lparr>name = ''foo'', cluster = None\<rparr>, \<lparr>name = ''bar'', cluster = Some ''C1''\<rparr>]"
  define G1 :: "(string, string, int) Graph"
    where "G1 = \<lparr>graph = \<lparr>vs = vs1, es = []\<rparr>, clusters = [(''C2'', [''bar'']), (''C1'', [''bar''])]\<rparr>"
  define G2 :: "(string, string, int) Graph"
    where "G2 = \<lparr>graph = \<lparr>vs = vs1, es = []\<rparr>,
                  clusters = [(''C2'', [''bar'']), (''C1'', [''bar'', ''bar''])]\<rparr>"
  define G3 :: "(string, string, int) Graph"
    where "G3 = \<lparr>graph = \<lparr>vs = [\<lparr>name = ''foo'', cluster = None\<rparr>,
                                   \<lparr>name = ''bar'', cluster = Some ''C2''\<rparr>], es = []\<rparr>,
                  clusters = [(''C2'', [''bar'']), (''C1'', [''bar''])]\<rparr>"
  have n0: "dunder_get_node_by_name (graph labelled_graph) ''bar'' = Inr 1"
    by (simp add: labelled_graph_def dunder_get_node_by_name_def vs_select_name_def upt_rec)
  have n1: "dunder_get_node_by_name (graph G1) ''bar'' = Inr 1"
    by (simp add: G1_def vs1_def dunder_get_node_by_name_def vs_select_name_def upt_rec)
  have n2: "dunder_get_node_by_name (graph G2) ''bar'' = Inr 1"
    by (simp add: G2_def vs1_def dunder_get_node_by_name_def vs_select_name_def upt_rec)
  have s1: "add_to_cluster labelled_graph ''bar'' ''C1'' = (None, G1)"
    unfolding add_to_cluster_ok[OF n0] by (simp add: labelled_graph_def G1_def vs1_def)
  have s2: "add_to_cluster G1 ''bar'' ''C1'' = (None, G2)"
    unfolding add_to_cluster_ok[OF n1] by (simp add: G1_def G2_def vs1_def)
  have lab: "dunder_add_label G1 ''bar'' (Some ''C2'') = (None, G3)"
    unfolding dunder_add_label_ok[OF n1] by (simp add: G1_def G3_def vs1_def)
  have s3: "remove_from_cluster G2 ''bar'' ''C1'' = (None, G3)"
    unfolding remove_from_cluster_def
    by (simp add: G2_def Let_def first_cluster_of_def lab[unfolded G1_def])
  show ?thesis
    unfolding Let_def s1 snd_conv fst_conv s2 s3
    by (simp add: G3_def)
qed

lemma set_map_entry_distinct:
  assumes "distinct (map fst cs)" and "map_of cs L = Some l"
  shows "set (AList.map_entry L f cs) = insert (L, f l) (set cs - {(L, l)})"
  using assms
proof (induction cs)
  case Nil
  then show ?case by simp
next
  case (Cons p cs)
  show ?case
  proof (cases "fst p = L")
    case True
    with Cons.prems(2) have p: "p = (L, l)" by (cases p) simp
    from Cons.prems(1) True have "L \<notin> fst ` set cs" by simp
    then have "(L, l) \<notin> set cs" by (metis fst_conv imageI)
    then have "set cs - {(L, l)} = set cs" by simp
    then show ?thesis unfolding p by simp
  next
    case False
    with Cons.prems have "map_of cs L = Some l" and "distinct (map fst cs)" by simp_all
    then have IH: "set (AList.map_entry L f cs) = insert (L, f l) (set cs - {(L, l)})"
      by (intro Cons.IH)
    from False have ne: "p \<noteq> (L, l)" by (cases p) auto
    have "set (AList.map_entry L f (p # cs)) = insert p (set (AList.map_entry L f cs))"
      using False by simp
    also have "\<dots> = insert p (insert (L, f l) (set cs - {(L, l)}))"
      by (simp only: IH)
    also have "\<dots> = insert (L, f l) (set (p # cs) - {(L, l)})"
      using ne by (simp add: insert_commute insert_Diff_if)
    finally show ?thesis .
  qed
qed

text \<open>
  Claim C6, as the code has it. For a node \<open>n\<close> that names one vertex and occurs exactly
  once in the list of \<open>L\<close>, \<open>remove_from_cluster(n, L)\<close> raises nothing, takes \<open>n\<close> out of
  the list of \<open>L\<close>, leaves the other lists, the edges and the vertex names alone, and
  sets the label of the vertex in the same call: to \<open>None\<close> exactly when no other list
  holds \<open>n\<close>, otherwise to the first label, in the dictionary's order, whose list holds
  \<open>n\<close>, which is a label other than \<open>L\<close> that \<open>n\<close> belongs to.
\<close>

theorem remove_from_cluster_once:
  assumes node: "dunder_get_node_by_name (graph G) n = Inr i"
      and keys: "distinct (map fst (clusters G))"
      and mem: "map_of (clusters G) L = Some l"
      and once: "count_list l n = 1"
      and r: "remove_from_cluster G n L = (e, G')"
  shows "e = None
         \<and> map_of (clusters G') L = Some (remove1 n l) \<and> n \<notin> set (remove1 n l)
         \<and> (\<forall>L'. L' \<noteq> L \<longrightarrow> map_of (clusters G') L' = map_of (clusters G) L')
         \<and> es (graph G') = es (graph G)
         \<and> map name (vs (graph G')) = map name (vs (graph G))
         \<and> cluster (vs (graph G') ! i) = first_cluster_of (clusters G') n
         \<and> (cluster (vs (graph G') ! i) = None
              \<longleftrightarrow> list_all (\<lambda>p. fst p = L \<or> n \<notin> set (snd p)) (clusters G))
         \<and> (\<forall>L'. cluster (vs (graph G') ! i) = Some L'
              \<longrightarrow> L' \<noteq> L \<and> (\<exists>l'. map_of (clusters G) L' = Some l' \<and> n \<in> set l'))"
proof -
  let ?cs = "AList.map_entry L (remove1 n) (clusters G)"
  have inl: "n \<in> set l"
    using once count_list_0_iff[of l n] by auto
  have notin: "n \<notin> set (remove1 n l)"
    using once inl count_list_remove1[of n l] count_list_0_iff[of "remove1 n l" n] by simp
  have key: "L \<in> fst ` set (clusters G)"
    using mem by (metis domI dom_map_of_conv_image_fst)
  have nc: "dunder_get_node_by_name (graph (G\<lparr>clusters := ?cs\<rparr>)) n = Inr i"
    using node by simp
  have rm: "remove_from_cluster G n L =
            (None, G\<lparr>clusters := ?cs,
                     graph := (graph G)\<lparr>vs := (vs (graph G))
                        [i := (vs (graph G) ! i)\<lparr>cluster := first_cluster_of ?cs n\<rparr>]\<rparr>\<rparr>)"
    using key mem inl dunder_add_label_ok[OF nc]
    by (simp add: remove_from_cluster_def Let_def del: AList.map_entry.simps)
  from rm r have e: "e = None"
    and G': "G' = G\<lparr>clusters := ?cs,
                     graph := (graph G)\<lparr>vs := (vs (graph G))
                        [i := (vs (graph G) ! i)\<lparr>cluster := first_cluster_of ?cs n\<rparr>]\<rparr>\<rparr>"
    by simp_all
  have c: "clusters G' = ?cs" by (simp add: G')
  have m: "map_of (clusters G') L = Some (remove1 n l)"
    using mem by (simp add: c map_of_map_entry del: AList.map_entry.simps)
  have other: "\<forall>L'. L' \<noteq> L \<longrightarrow> map_of (clusters G') L' = map_of (clusters G) L'"
    by (simp add: c map_of_map_entry del: AList.map_entry.simps)
  have edges: "es (graph G') = es (graph G)" by (simp add: G')
  have names: "map name (vs (graph G')) = map name (vs (graph G))"
    by (simp add: G' names_relabel)
  have ilen: "i < length (vs (graph G))"
    by (rule get_node_bound[OF node])
  have lbl: "cluster (vs (graph G') ! i) = first_cluster_of (clusters G') n"
    using ilen by (simp add: G')
  have setc: "set (clusters G') = insert (L, remove1 n l) (set (clusters G) - {(L, l)})"
    unfolding c by (rule set_map_entry_distinct[OF keys mem])
  have uniq: "p = (L, l)" if "p \<in> set (clusters G)" and "fst p = L" for p
  proof -
    from that(2) obtain l' where p: "p = (L, l')" by (cases p) auto
    with that keys have "map_of (clusters G) L = Some l'" by simp
    with mem p show ?thesis by simp
  qed
  have none: "cluster (vs (graph G') ! i) = None
              \<longleftrightarrow> list_all (\<lambda>p. fst p = L \<or> n \<notin> set (snd p)) (clusters G)"
  proof
    assume "cluster (vs (graph G') ! i) = None"
    then have *: "\<And>q. q \<in> set (clusters G') \<Longrightarrow> n \<notin> set (snd q)"
      unfolding lbl first_cluster_of_None by (simp add: list_all_iff)
    show "list_all (\<lambda>p. fst p = L \<or> n \<notin> set (snd p)) (clusters G)"
      unfolding list_all_iff
    proof
      fix p assume p: "p \<in> set (clusters G)"
      show "fst p = L \<or> n \<notin> set (snd p)"
      proof (cases "fst p = L")
        case False
        with p have "p \<in> set (clusters G')" unfolding setc by auto
        then show ?thesis using * by simp
      qed simp
    qed
  next
    assume all: "list_all (\<lambda>p. fst p = L \<or> n \<notin> set (snd p)) (clusters G)"
    have "n \<notin> set (snd q)" if "q \<in> set (clusters G')" for q
    proof (cases "q = (L, remove1 n l)")
      case True
      then show ?thesis using notin by simp
    next
      case False
      with that have q: "q \<in> set (clusters G)" and "q \<noteq> (L, l)" unfolding setc by auto
      with uniq have "fst q \<noteq> L" by blast
      with all q show ?thesis by (auto simp: list_all_iff)
    qed
    then show "cluster (vs (graph G') ! i) = None"
      unfolding lbl first_cluster_of_None by (simp add: list_all_iff)
  qed
  have some: "\<forall>L'. cluster (vs (graph G') ! i) = Some L'
              \<longrightarrow> L' \<noteq> L \<and> (\<exists>l'. map_of (clusters G) L' = Some l' \<and> n \<in> set l')"
  proof (intro allI impI)
    fix L' assume "cluster (vs (graph G') ! i) = Some L'"
    then obtain l' where in': "(L', l') \<in> set (clusters G')" and nl': "n \<in> set l'"
      unfolding lbl using first_cluster_of_mem by fastforce
    from nl' notin have "(L', l') \<noteq> (L, remove1 n l)" by auto
    with in' have q: "(L', l') \<in> set (clusters G)" and ne: "(L', l') \<noteq> (L, l)"
      unfolding setc by auto
    from uniq[OF q] ne have "L' \<noteq> L" by auto
    moreover from q keys have "map_of (clusters G) L' = Some l'" by simp
    ultimately show "L' \<noteq> L \<and> (\<exists>l'. map_of (clusters G) L' = Some l' \<and> n \<in> set l')"
      using nl' by blast
  qed
  from e m notin other edges names lbl none some show ?thesis by blast
qed


theorem remove_from_cluster_once_witness:
  "dunder_get_node_by_name (graph labelled_graph) ''bar'' = Inr 1
   \<and> distinct (map fst (clusters labelled_graph))
   \<and> map_of (clusters labelled_graph) ''C2'' = Some [''bar'']
   \<and> count_list [''bar''] ''bar'' = 1
   \<and> list_all (\<lambda>p. fst p = ''C2'' \<or> ''bar'' \<notin> set (snd p)) (clusters labelled_graph)
   \<and> fst (remove_from_cluster labelled_graph ''bar'' ''C2'') = None
   \<and> map_of (clusters (snd (remove_from_cluster labelled_graph ''bar'' ''C2''))) ''C2'' = Some []
   \<and> cluster (vs (graph (snd (remove_from_cluster labelled_graph ''bar'' ''C2''))) ! 1) = None
   \<and> dunder_get_node_by_name (graph shared_graph) ''bar'' = Inr 1
   \<and> distinct (map fst (clusters shared_graph))
   \<and> map_of (clusters shared_graph) ''C1'' = Some [''foo'', ''bar'']
   \<and> count_list [''foo'', ''bar''] ''bar'' = 1
   \<and> fst (remove_from_cluster shared_graph ''bar'' ''C1'') = None
   \<and> map_of (clusters (snd (remove_from_cluster shared_graph ''bar'' ''C1''))) ''C1'' = Some [''foo'']
   \<and> cluster (vs (graph (snd (remove_from_cluster shared_graph ''bar'' ''C1''))) ! 1) = Some ''C2''"
proof -
  have n1: "dunder_get_node_by_name (graph labelled_graph) ''bar'' = Inr 1"
    by (simp add: labelled_graph_def dunder_get_node_by_name_def vs_select_name_def upt_rec)
  have d1: "distinct (map fst (clusters labelled_graph))"
    by (simp add: labelled_graph_def)
  have m1: "map_of (clusters labelled_graph) ''C2'' = Some [''bar'']"
    by (simp add: labelled_graph_def)
  have c1: "count_list [''bar''] ''bar'' = 1" by simp
  have a1: "list_all (\<lambda>p. fst p = ''C2'' \<or> ''bar'' \<notin> set (snd p)) (clusters labelled_graph)"
    by (simp add: labelled_graph_def)
  note t1 = remove_from_cluster_once[OF n1 d1 m1 c1 surjective_pairing]
  from t1 have e1: "fst (remove_from_cluster labelled_graph ''bar'' ''C2'') = None"
    by blast
  from t1 have "map_of (clusters (snd (remove_from_cluster labelled_graph ''bar'' ''C2''))) ''C2''
                = Some (remove1 ''bar'' [''bar''])"
    by blast
  then have r1: "map_of (clusters (snd (remove_from_cluster labelled_graph ''bar'' ''C2''))) ''C2''
                 = Some []"
    by simp
  from t1 a1 have l1: "cluster (vs (graph (snd (remove_from_cluster labelled_graph ''bar'' ''C2''))) ! 1)
                       = None"
    by blast
  have n2: "dunder_get_node_by_name (graph shared_graph) ''bar'' = Inr 1"
    by (simp add: shared_graph_def dunder_get_node_by_name_def vs_select_name_def upt_rec)
  have d2: "distinct (map fst (clusters shared_graph))"
    by (simp add: shared_graph_def)
  have m2: "map_of (clusters shared_graph) ''C1'' = Some [''foo'', ''bar'']"
    by (simp add: shared_graph_def)
  have c2: "count_list [''foo'', ''bar''] ''bar'' = 1" by simp
  have a2: "\<not> list_all (\<lambda>p. fst p = ''C1'' \<or> ''bar'' \<notin> set (snd p)) (clusters shared_graph)"
    by (simp add: shared_graph_def)
  note t2 = remove_from_cluster_once[OF n2 d2 m2 c2 surjective_pairing]
  from t2 have e2: "fst (remove_from_cluster shared_graph ''bar'' ''C1'') = None"
    by blast
  from t2 have "map_of (clusters (snd (remove_from_cluster shared_graph ''bar'' ''C1''))) ''C1''
                = Some (remove1 ''bar'' [''foo'', ''bar''])"
    by blast
  then have r2: "map_of (clusters (snd (remove_from_cluster shared_graph ''bar'' ''C1''))) ''C1''
                 = Some [''foo'']"
    by simp
  from t2 a2 obtain L'
    where L': "cluster (vs (graph (snd (remove_from_cluster shared_graph ''bar'' ''C1''))) ! 1)
               = Some L'"
    by blast
  with t2 have "L' \<noteq> ''C1''" and "\<exists>l'. map_of (clusters shared_graph) L' = Some l'"
    by blast+
  then have "L' = ''C2''"
    by (auto simp: shared_graph_def split: if_splits)
  with L' have l2: "cluster (vs (graph (snd (remove_from_cluster shared_graph ''bar'' ''C1''))) ! 1)
                    = Some ''C2''"
    by simp
  from n1 d1 m1 c1 a1 e1 r1 l1 n2 d2 m2 c2 e2 r2 l2 show ?thesis
    by blast
qed

text \<open>
  Claim C6 as stated fails for a node recorded twice under \<open>L\<close>: after the removal
  \<open>foo\<close> is still in the list of \<open>C1\<close>, and its label is still \<open>C1\<close>.
\<close>

theorem remove_repeated_counterexample:
  "fst (remove_from_cluster repeated_graph ''foo'' ''C1'') = None
   \<and> map_of (clusters (snd (remove_from_cluster repeated_graph ''foo'' ''C1''))) ''C1''
       = Some [''foo'']
   \<and> cluster (vs (graph (snd (remove_from_cluster repeated_graph ''foo'' ''C1''))) ! 0)
       = Some ''C1''"
proof -
  define G' :: "(string, string, int) Graph"
    where "G' = \<lparr>graph = \<lparr>vs = [\<lparr>name = ''foo'', cluster = Some ''C1''\<rparr>], es = []\<rparr>,
                  clusters = [(''C1'', [''foo''])]\<rparr>"
  have n: "dunder_get_node_by_name (graph G') ''foo'' = Inr 0"
    by (simp add: G'_def dunder_get_node_by_name_def vs_select_name_def)
  have lab: "dunder_add_label G' ''foo'' (Some ''C1'') = (None, G')"
    unfolding dunder_add_label_ok[OF n] by (simp add: G'_def)
  have "remove_from_cluster repeated_graph ''foo'' ''C1'' = (None, G')"
    unfolding remove_from_cluster_def
    by (simp add: repeated_graph_def Let_def first_cluster_of_def lab[unfolded G'_def])
       (simp add: G'_def)
  then show ?thesis
    by (simp add: G'_def)
qed

subsection \<open>Cluster queries\<close>

text \<open>
  Claim C8, evaluated on the code. With \<open>use_dict\<close> left at its default, \<open>nodes_in_cluster\<close>
  subscripts the label by itself instead of the dictionary, so the call raises TypeError
  for every graph and every label, whether the label exists or not.
\<close>

theorem nodes_in_cluster_raises: "nodes_in_cluster G c True = Inl TypeError"
  by (simp add: nodes_in_cluster_def subscript_self_def)

subsection \<open>Bounding the out-degree\<close>

lemma subgraph_while_raises: "subgraph_while sg v edges k = Some (Inl TypeError)"
  by (subst subgraph_while.simps) (simp add: vertex_outdegree_def)

text \<open>
  Claim C1, evaluated on the code. On a graph with at least one vertex \<open>subgraph\<close> raises
  TypeError at the first test of its loop, for every bound: no edge is removed and no
  graph is returned.
\<close>

theorem subgraph_raises:
  assumes "vs (graph G) \<noteq> []"
  shows "subgraph G k = Some (Inl TypeError)"
proof -
  from assms obtain n where "length (vs (graph G)) = Suc n"
    by (cases "vs (graph G)") auto
  then have "[0..<length (vs (graph G))] = 0 # [Suc 0..<Suc n]"
    by (simp add: upt_rec)
  then show ?thesis
    by (simp add: subgraph_def subgraph_while_raises)
qed

theorem subgraph_raises_witness:
  "vs (graph driver_graph) \<noteq> [] \<and> subgraph driver_graph 1 = Some (Inl TypeError)"
proof -
  have v: "vs (graph driver_graph) \<noteq> []" by (simp add: driver_graph_def)
  show ?thesis using subgraph_raises[OF v, of 1] v by simp
qed

subsection \<open>Saving and loading\<close>

lemma Graph_init_ok: "igraph_ok g \<Longrightarrow> graph (Graph_init (Some g)) = g"
  by (cases "es g") (auto simp: Graph_init_def igraph_ok_def igraph_Graph_def)

text \<open>
  Claim C3. Saving a graph to a location and loading from that location gives the same
  object back: the same vertices with their names and cluster labels, the same edges
  with their weights and the same cluster dictionary. Loading from a location where no
  file exists ends in FileNotFoundError and returns no graph.
\<close>

theorem save_load_roundtrip:
  assumes "igraph_ok (graph G)"
  shows "load (save G location fs) location = Inr G
         \<and> (fs' location' = None \<longrightarrow> load fs' location' = Inl FileNotFoundError)"
proof -
  have "Graph_init (Some (graph G))\<lparr>clusters := clusters G\<rparr> = G"
    using Graph_init_ok[OF assms] by (simp add: Graph_init_def)
  then show ?thesis
    by (simp add: load_def save_def)
qed

theorem save_load_roundtrip_witness:
  "igraph_ok (graph driver_graph)
   \<and> load (save driver_graph ''foo'' Map.empty) ''foo'' = Inr driver_graph
   \<and> (Map.empty :: (string, string, int) files) ''foo'' = None
   \<and> load (Map.empty :: (string, string, int) files) ''foo'' = Inl FileNotFoundError"
proof -
  have ok: "igraph_ok (graph driver_graph)"
    by (simp add: igraph_ok_def driver_graph_def)
  show ?thesis
    using save_load_roundtrip[OF ok, of "''foo''" Map.empty Map.empty "''foo''"] ok by simp
qed

subsection \<open>Graphs from a similarity table\<close>

lemma sim2_vertices:
  "add_vertices (Graph_init None) [1, 2 :: int] =
   \<lparr>graph = \<lparr>vs = [\<lparr>name = 1, cluster = None\<rparr>, \<lparr>name = 2, cluster = None\<rparr>], es = []\<rparr>,
    clusters = []\<rparr>"
  by (simp add: add_vertices_def Graph_init_def igraph_Graph_def)

lemma sim2_nodes:
  assumes "vs g = [\<lparr>name = 1 :: int, cluster = None\<rparr>, \<lparr>name = 2, cluster = None\<rparr>]"
  shows "dunder_get_node_by_name g 1 = Inr 0" and "dunder_get_node_by_name g 2 = Inr 1"
  using assms by (simp_all add: dunder_get_node_by_name_def vs_select_name_def upt_rec)

lemma sim2_row1: "frame_loc sim2 1 = Inr [(1, 0), (2, 5)]"
  by (simp add: frame_loc_def sim2_def)

lemma sim2_row2: "frame_loc sim2 2 = Inr [(1, 5), (2, 0)]"
  by (simp add: frame_loc_def sim2_def)

lemma sim2_sort1: "sort_values_desc [(1::int, 0::int), (2, 5)] = [(2, 5), (1, 0)]"
  by (simp add: sort_values_desc_def)

lemma sim2_sort2: "sort_values_desc [(1::int, 5::int), (2, 0)] = [(1, 5), (2, 0)]"
  by (simp add: sort_values_desc_def)

lemma sim2_edges1:
  "dunder_add_edges
     \<lparr>graph = \<lparr>vs = [\<lparr>name = 1 :: int, cluster = None\<rparr>, \<lparr>name = 2, cluster = None\<rparr>], es = []\<rparr>,
      clusters = []\<rparr> [(1, 2), (1, 1)] [5 :: int, 0] =
   (None, \<lparr>graph = \<lparr>vs = [\<lparr>name = 1, cluster = None\<rparr>, \<lparr>name = 2, cluster = None\<rparr>],
                      es = [\<lparr>source = 0, target = Suc 0, weight = 5\<rparr>,
                            \<lparr>source = 0, target = 0, weight = 0\<rparr>]\<rparr>,
           clusters = []\<rparr>)"
  by (subst dunder_add_edges_ok[where new = "[(0, Suc 0), (0, 0)]"])
     (simp_all add: sim2_nodes mk_iedge_def)

lemma sim2_edges2:
  "dunder_add_edges
     \<lparr>graph = \<lparr>vs = [\<lparr>name = 1 :: int, cluster = None\<rparr>, \<lparr>name = 2, cluster = None\<rparr>],
                es = [\<lparr>source = 0, target = Suc 0, weight = 5\<rparr>,
                      \<lparr>source = 0, target = 0, weight = 0\<rparr>]\<rparr>,
      clusters = []\<rparr> [(2, 1), (2, 2)] [5 :: int, 0] =
   (None, \<lparr>graph = \<lparr>vs = [\<lparr>name = 1, cluster = None\<rparr>, \<lparr>name = 2, cluster = None\<rparr>],
                      es = [\<lparr>source = 0, target = Suc 0, weight = 5\<rparr>,
                            \<lparr>source = 0, target = 0, weight = 0\<rparr>,
                            \<lparr>source = Suc 0, target = 0, weight = 5\<rparr>,
                            \<lparr>source = Suc 0, target = Suc 0, weight = 0\<rparr>]\<rparr>,
           clusters = []\<rparr>)"
  by (subst dunder_add_edges_ok[where new = "[(Suc 0, 0), (Suc 0, Suc 0)]"])
     (simp_all add: sim2_nodes mk_iedge_def)

lemma sim2_top1: "top_k 9 [(1::int, 0::int), (2, 5)] = [(2, 5), (1, 0)]"
  by (simp add: top_k_def sim2_sort1 py_slice_to_def)

lemma sim2_top2: "top_k 9 [(1::int, 5::int), (2, 0)] = [(1, 5), (2, 0)]"
  by (simp add: top_k_def sim2_sort2 py_slice_to_def)

text \<open>
  Claim C4, evaluated on the code. \<open>add_similarity\<close> adds an edge from each photo to
  every column of its row, its own column included: on the table of photos 1 and 2 the
  graph gets the edges 1 to 1 and 2 to 2. In \<open>make_graphs\<close> the zeroed diagonal stays in
  the row, so with the default \<open>k = 9\<close> each photo is among its own neighbours.
\<close>

theorem add_similarity_self_loops:
  "add_similarity (Graph_init None) sim2 =
     (None, \<lparr>graph = \<lparr>vs = [\<lparr>name = 1, cluster = None\<rparr>, \<lparr>name = 2, cluster = None\<rparr>],
                        es = [\<lparr>source = 0, target = 1, weight = 5\<rparr>,
                              \<lparr>source = 0, target = 0, weight = 0\<rparr>,
                              \<lparr>source = 1, target = 0, weight = 5\<rparr>,
                              \<lparr>source = 1, target = 1, weight = 0\<rparr>]\<rparr>,
             clusters = []\<rparr>)
   \<and> list_ex (\<lambda>e. source e = target e) (es (graph (snd (add_similarity (Graph_init None) sim2))))
   \<and> edge_dict_of 9 sim2 = [(1, [(2, 5), (1, 0)]), (2, [(1, 5), (2, 0)])]"
proof -
  have ix: "index sim2 = [1, 2]" and co: "columns sim2 = [1, 2]"
    by (simp_all add: sim2_def)
  have a: "add_similarity (Graph_init None) sim2 =
     (None, \<lparr>graph = \<lparr>vs = [\<lparr>name = 1, cluster = None\<rparr>, \<lparr>name = 2, cluster = None\<rparr>],
                        es = [\<lparr>source = 0, target = 1, weight = 5\<rparr>,
                              \<lparr>source = 0, target = 0, weight = 0\<rparr>,
                              \<lparr>source = 1, target = 0, weight = 5\<rparr>,
                              \<lparr>source = 1, target = 1, weight = 0\<rparr>]\<rparr>,
             clusters = []\<rparr>)"
    unfolding add_similarity_def Let_def ix co sim2_vertices
    by (simp add: sim2_row1 sim2_row2 sim2_sort1 sim2_sort2 sim2_edges1 sim2_edges2)
  have e: "edge_dict_of 9 sim2 = [(1, [(2, 5), (1, 0)]), (2, [(1, 5), (2, 0)])]"
    by (simp add: edge_dict_of_def frame_iloc_def sim2_def upt_rec sim2_top1 sim2_top2)
  show ?thesis
    unfolding a e by simp
qed

subsection \<open>The similarity matrix\<close>

lemma dot_commute: "dot u v = dot v u"
proof -
  have "map2 (*) u v = map2 (*) v u"
    by (subst zip_commute) (simp add: case_prod_unfold mult.commute)
  then show ?thesis by (simp add: dot_def)
qed

lemma cosine_commute: "cosine u v = cosine v u"
  by (simp add: cosine_def dot_commute[of u v] mult.commute)

lemma zero_diagonal_nth:
  assumes "i < length m" and "j < length (m ! i)"
  shows "zero_diagonal m ! i ! j = (if i = j then 0 else m ! i ! j)"
  using assms by (auto simp: zero_diagonal_def nth_list_update)

lemma zero_diagonal_length: "length (zero_diagonal m) = length m"
  by (simp add: zero_diagonal_def)

lemma zero_diagonal_row_length: "i < length m \<Longrightarrow> length (zero_diagonal m ! i) = length (m ! i)"
  by (simp add: zero_diagonal_def)

text \<open>
  Claim C5. For every feature table the similarity matrix of \<open>make_graphs\<close> is computed
  without an exception, has the photo identifiers on both axes, is square and symmetric,
  and has 0 in every diagonal entry, whatever the cosine of a vector with itself is.
\<close>

theorem similarity_matrix_symmetric:
  "(\<exists>S. similarity_matrix t = Inr S)
   \<and> (\<forall>S. similarity_matrix t = Inr S \<longrightarrow>
         index S = index t \<and> columns S = index t
         \<and> length (vals S) = length (vals t)
         \<and> (\<forall>i < length (vals S). length (vals S ! i) = length (vals S))
         \<and> (\<forall>i < length (vals S). \<forall>j < length (vals S). vals S ! i ! j = vals S ! j ! i)
         \<and> (\<forall>i < length (vals S). vals S ! i ! i = 0))"
proof -
  let ?M = "map (\<lambda>u. map (\<lambda>v. cosine u v) (vals t)) (vals t)"
  let ?S = "\<lparr>index = index t, columns = index t, vals = zero_diagonal ?M\<rparr>"
  have eq: "similarity_matrix t = Inr ?S"
    by (simp add: similarity_matrix_def cosine_similarity_def Let_def)
  have len: "length (vals ?S) = length (vals t)"
    by (simp add: zero_diagonal_length)
  have rows: "length (vals ?S ! i) = length (vals t)" if "i < length (vals t)" for i
    using that by (simp add: zero_diagonal_row_length)
  have entry: "vals ?S ! i ! j = (if i = j then 0 else cosine (vals t ! i) (vals t ! j))"
    if "i < length (vals t)" and "j < length (vals t)" for i j
    using that by (simp add: zero_diagonal_nth)
  have sym: "vals ?S ! i ! j = vals ?S ! j ! i"
    if "i < length (vals t)" and "j < length (vals t)" for i j
    using that cosine_commute[of "vals t ! i" "vals t ! j"] by (simp only: entry) auto
  have diag: "vals ?S ! i ! i = 0" if "i < length (vals t)" for i
    using that by (simp only: entry) simp
  have props: "index ?S = index t \<and> columns ?S = index t
         \<and> length (vals ?S) = length (vals t)
         \<and> (\<forall>i < length (vals ?S). length (vals ?S ! i) = length (vals ?S))
         \<and> (\<forall>i < length (vals ?S). \<forall>j < length (vals ?S). vals ?S ! i ! j = vals ?S ! j ! i)
         \<and> (\<forall>i < length (vals ?S). vals ?S ! i ! i = 0)"
    using rows sym diag unfolding len by simp
  show ?thesis
    unfolding eq using props by blast
qed

lemma photos2_similarity:
  "similarity_matrix photos2 =
     Inr \<lparr>index = [1, 2], columns = [1, 2], vals = [[0, 24 / 25], [24 / 25, 0]]\<rparr>"
  by (simp add: similarity_matrix_def cosine_similarity_def Let_def photos2_def zero_diagonal_def
      cosine_def dot_def upt_rec)

theorem similarity_matrix_symmetric_witness:
  "similarity_matrix photos2 =
     Inr \<lparr>index = [1, 2], columns = [1, 2], vals = [[0, 24 / 25], [24 / 25, 0]]\<rparr>
   \<and> (0::nat) < length [[0, 24 / 25], [24 / 25, 0::real]]
   \<and> (1::nat) < length [[0, 24 / 25], [24 / 25, 0::real]]
   \<and> [[0, 24 / 25], [24 / 25, 0::real]] ! 0 ! 1 = [[0, 24 / 25], [24 / 25, 0]] ! 1 ! 0
   \<and> [[0, 24 / 25], [24 / 25, 0::real]] ! 0 ! 0 = 0
   \<and> length ([[0, 24 / 25], [24 / 25, 0::real]] ! 1) = length [[0, 24 / 25], [24 / 25, 0::real]]"
proof -
  let ?S = "\<lparr>index = [1, 2 :: int], columns = [1, 2 :: int],
             vals = [[0, 24 / 25], [24 / 25, 0::real]]\<rparr>"
  from similarity_matrix_symmetric[of photos2] photos2_similarity
  have sym: "\<forall>i < length (vals ?S). \<forall>j < length (vals ?S). vals ?S ! i ! j = vals ?S ! j ! i"
    and diag: "\<forall>i < length (vals ?S). vals ?S ! i ! i = 0"
    and rows: "\<forall>i < length (vals ?S). length (vals ?S ! i) = length (vals ?S)"
    by blast+
  have l0: "(0::nat) < length (vals ?S)" and l1: "(1::nat) < length (vals ?S)"
    by simp_all
  from sym l0 l1 have "vals ?S ! 0 ! 1 = vals ?S ! 1 ! 0" by blast
  moreover from diag l0 have "vals ?S ! 0 ! 0 = 0" by blast
  moreover from rows l1 have "length (vals ?S ! 1) = length (vals ?S)" by blast
  ultimately show ?thesis
    using photos2_similarity l0 l1 by simp
qed

subsection \<open>The loop over the neighbour counts\<close>

lemma shrink_small: "int (length d) \<le> k \<Longrightarrow> shrink k d = Inr d"
  by (subst shrink.simps) simp

lemma length_update_le: "length (AList.update k v d) \<le> Suc (length d)"
  by (induction d) auto

lemma length_fold_update:
  "length (fold (\<lambda>key d. case map_of xs key of None \<Rightarrow> d | Some w \<Rightarrow> AList.update key w d)
             keys acc) \<le> length acc + length keys"
proof (induction keys arbitrary: acc)
  case Nil
  then show ?case by simp
next
  case (Cons key keys)
  let ?acc' = "case map_of xs key of None \<Rightarrow> acc | Some w \<Rightarrow> AList.update key w acc"
  have "length ?acc' \<le> Suc (length acc)"
    using length_update_le[of key _ acc] by (cases "map_of xs key") simp_all
  moreover have "length (fold (\<lambda>key d. case map_of xs key of None \<Rightarrow> d
                                         | Some w \<Rightarrow> AList.update key w d) keys ?acc')
                 \<le> length ?acc' + length keys"
    by (rule Cons.IH)
  ultimately show ?case by simp
qed

lemma top_k_length:
  assumes "0 \<le> k"
  shows "int (length (top_k k row)) \<le> k"
proof -
  have "top_k k row =
        fold (\<lambda>key d. case map_of (sort_values_desc row) key of None \<Rightarrow> d
                       | Some w \<Rightarrow> AList.update key w d)
          (map fst (take (nat k) (sort_values_desc row))) []"
    using assms by (simp add: top_k_def py_slice_to_def Let_def)
  then have "length (top_k k row) \<le> length (map fst (take (nat k) (sort_values_desc row)))"
    using length_fold_update[of "sort_values_desc row"
        "map fst (take (nat k) (sort_values_desc row))" "[]"]
    by (simp only: list.size add_0)
  also have "\<dots> \<le> nat k" by simp
  finally show ?thesis using assms by simp
qed

lemma shrink_rows_small:
  "list_all (\<lambda>p. int (length (snd p)) \<le> k) d \<Longrightarrow> shrink_rows k d = Inr d"
proof (induction d)
  case Nil
  then show ?case by simp
next
  case (Cons p d)
  obtain key v where p: "p = (key, v)" by (cases p)
  from Cons show ?case unfolding p
    by (simp add: shrink_small)
qed

lemma list_all_update:
  "P (k, v) \<Longrightarrow> list_all P d \<Longrightarrow> list_all P (AList.update k v d)"
  by (induction d) auto

lemma edge_dict_small:
  assumes "0 \<le> k"
  shows "list_all (\<lambda>p. int (length (snd p)) \<le> k) (edge_dict_of k similarity)"
proof -
  have "list_all (\<lambda>p. int (length (snd p)) \<le> k)
          (fold (\<lambda>i d. AList.update (index similarity ! i) (top_k k (frame_iloc similarity i)) d)
             is acc)"
    if "list_all (\<lambda>p. int (length (snd p)) \<le> k) acc" for "is" acc
    using that
  proof (induction "is" arbitrary: acc)
    case Nil
    then show ?case by simp
  next
    case (Cons i "is")
    have "list_all (\<lambda>p. int (length (snd p)) \<le> k)
            (AList.update (index similarity ! i) (top_k k (frame_iloc similarity i)) acc)"
      using Cons.prems top_k_length[OF assms, of "frame_iloc similarity i"]
      by (intro list_all_update) simp_all
    then show ?case
      by (simp add: Cons.IH)
  qed
  then show ?thesis
    by (simp add: edge_dict_of_def)
qed

text \<open>
  The loop of \<open>make_graphs\<close> over \<open>all_ks\<close> tests \<open>len(working[key]) > k\<close> with the largest
  count \<open>k\<close>, not with \<open>nearest\<close>: for \<open>k \<ge> 0\<close> every inner dictionary already has at most
  \<open>k\<close> entries, so the loop removes nothing and every round works on the same neighbour
  maps.
\<close>

theorem make_graphs_never_shrinks:
  assumes "0 \<le> k"
  shows "shrink_rows k (edge_dict_of k similarity) = Inr (edge_dict_of k similarity)"
  by (rule shrink_rows_small[OF edge_dict_small[OF assms]])

theorem make_graphs_never_shrinks_witness:
  "(0::int) \<le> 2
   \<and> edge_dict_of 2 sim2 = [(1, [(2, 5), (1, 0)]), (2, [(1, 5), (2, 0)])]
   \<and> shrink_rows 2 (edge_dict_of 2 sim2) = Inr [(1, [(2, 5), (1, 0)]), (2, [(1, 5), (2, 0)])]"
proof -
  have t1: "top_k 2 [(1::int, 0::int), (2, 5)] = [(2, 5), (1, 0)]"
    by (simp add: top_k_def sim2_sort1 py_slice_to_def)
  have t2: "top_k 2 [(1::int, 5::int), (2, 0)] = [(1, 5), (2, 0)]"
    by (simp add: top_k_def sim2_sort2 py_slice_to_def)
  have e: "edge_dict_of 2 sim2 = [(1, [(2, 5), (1, 0)]), (2, [(1, 5), (2, 0)])]"
    by (simp add: edge_dict_of_def frame_iloc_def sim2_def upt_rec t1 t2)
  show ?thesis
    using make_graphs_never_shrinks[of 2 sim2] unfolding e by simp
qed

text \<open>
  \<open>make_graphs\<close> never returns a graph: whatever it is given, it ends in an exception
  (at the latest at \<open>g.add_edge_dict\<close>, which \<open>class Graph\<close> does not define).
\<close>

theorem make_graphs_raises: "\<exists>e. make_graphs all_photos k all_ks = Inl e"
proof (cases "choose_k k all_ks")
  case (Inl e)
  then show ?thesis by (simp add: make_graphs_def)
next
  case (Inr p)
  obtain k' ks where p: "p = (k', ks)" by (cases p)
  have ne: "ks \<noteq> []"
    using Inr unfolding p by (auto simp: choose_k_def split: option.splits list.splits)
  then have "length (rev (sort ks)) \<noteq> 0" by simp
  then have "rev (sort ks) \<noteq> []" by (simp only: length_0_conv not_False_eq_True)
  then obtain nearest rest where r: "rev (sort ks) = nearest # rest"
    by (cases "rev (sort ks)") auto
  show ?thesis
  proof (cases "similarity_matrix all_photos")
    case (Inl e)
    then show ?thesis using Inr p by (simp add: make_graphs_def)
  next
    case s: (Inr similarity)
    show ?thesis
      using Inr p s r
      by (cases "shrink_rows k' (edge_dict_of k' similarity)") (simp_all add: make_graphs_def)
  qed
qed

lemma photos3_similarity: "similarity_matrix photos3 = Inr sim3"
  by (simp add: similarity_matrix_def cosine_similarity_def Let_def photos3_def sim3_def
      zero_diagonal_def cosine_def dot_def upt_rec)

lemma sim3_sort1:
  "sort_values_desc [(1::int, 0::real), (2, 24 / 25), (3, 3 / 5)] = [(2, 24 / 25), (3, 3 / 5), (1, 0)]"
  by (simp add: sort_values_desc_def)

lemma sim3_sort2:
  "sort_values_desc [(1::int, 24 / 25 :: real), (2, 0), (3, 4 / 5)] = [(1, 24 / 25), (3, 4 / 5), (2, 0)]"
  by (simp add: sort_values_desc_def)

lemma sim3_sort3:
  "sort_values_desc [(1::int, 3 / 5 :: real), (2, 4 / 5), (3, 0)] = [(2, 4 / 5), (1, 3 / 5), (3, 0)]"
  by (simp add: sort_values_desc_def)

lemma sim3_top2:
  "top_k 2 [(1::int, 0::real), (2, 24 / 25), (3, 3 / 5)] = [(2, 24 / 25), (3, 3 / 5)]"
  "top_k 2 [(1::int, 24 / 25 :: real), (2, 0), (3, 4 / 5)] = [(1, 24 / 25), (3, 4 / 5)]"
  "top_k 2 [(1::int, 3 / 5 :: real), (2, 4 / 5), (3, 0)] = [(2, 4 / 5), (1, 3 / 5)]"
  by (simp_all add: top_k_def sim3_sort1 sim3_sort2 sim3_sort3 py_slice_to_def)

lemma sim3_top1:
  "top_k 1 [(1::int, 0::real), (2, 24 / 25), (3, 3 / 5)] = [(2, 24 / 25)]"
  "top_k 1 [(1::int, 24 / 25 :: real), (2, 0), (3, 4 / 5)] = [(1, 24 / 25)]"
  "top_k 1 [(1::int, 3 / 5 :: real), (2, 4 / 5), (3, 0)] = [(2, 4 / 5)]"
  by (simp_all add: top_k_def sim3_sort1 sim3_sort2 sim3_sort3 py_slice_to_def)

lemma sim3_edge_dict2:
  "edge_dict_of 2 sim3 =
     [(1, [(2, 24 / 25), (3, 3 / 5)]), (2, [(1, 24 / 25), (3, 4 / 5)]), (3, [(2, 4 / 5), (1, 3 / 5)])]"
  by (simp add: edge_dict_of_def frame_iloc_def sim3_def upt_rec sim3_top2)

lemma sim3_edge_dict1:
  "edge_dict_of 1 sim3 = [(1, [(2, 24 / 25)]), (2, [(1, 24 / 25)]), (3, [(2, 4 / 5)])]"
  by (simp add: edge_dict_of_def frame_iloc_def sim3_def upt_rec sim3_top1)

lemma sim3_working:
  "shrink_rows 2 (edge_dict_of 2 sim3) = Inr (edge_dict_of 2 sim3)"
  unfolding sim3_edge_dict2 by (simp add: shrink_small)

lemma sim3_choose: "choose_k None [2, 1] = Inr (2, [2, 1])"
  by (simp add: choose_k_def)

lemma sim3_order: "rev (sort [2, 1 :: int]) = [2, 1]"
  by simp

text \<open>
  Claim C2, evaluated on the code. \<open>make_graphs\<close> with \<open>all_ks = [2, 1]\<close> on a table of
  three photos takes \<open>k = 2\<close>. Its loop compares the size of every neighbour map with
  \<open>k\<close>, not with \<open>nearest\<close>, so the maps it hands over keep two neighbours per photo in
  every round, where the top 1 of each row is a single neighbour; the first round
  already ends in the AttributeError of \<open>g.add_edge_dict\<close>, so no graph for the smaller
  count is ever produced.
\<close>

theorem make_graphs_keeps_top_k:
  "similarity_matrix photos3 = Inr sim3
   \<and> choose_k None [2, 1] = Inr (2, [2, 1])
   \<and> shrink_rows 2 (edge_dict_of 2 sim3) =
       Inr [(1, [(2, 24 / 25), (3, 3 / 5)]), (2, [(1, 24 / 25), (3, 4 / 5)]),
            (3, [(2, 4 / 5), (1, 3 / 5)])]
   \<and> edge_dict_of 1 sim3 = [(1, [(2, 24 / 25)]), (2, [(1, 24 / 25)]), (3, [(2, 4 / 5)])]
   \<and> make_graphs photos3 None [2, 1] = Inl AttributeError"
proof -
  have w: "shrink_rows 2 (edge_dict_of 2 sim3) =
       Inr [(1, [(2, 24 / 25), (3, 3 / 5)]), (2, [(1, 24 / 25), (3, 4 / 5)]),
            (3, [(2, 4 / 5), (1, 3 / 5)])]"
    using sim3_working unfolding sim3_edge_dict2 .
  have "make_graphs photos3 None [2, 1] = make_graphs_for 2 (edge_dict_of 2 sim3) [2, 1]"
    unfolding make_graphs_def sim3_choose photos3_similarity sim3_order by simp
  also have "\<dots> = Inl AttributeError"
    by (simp add: sim3_working)
  finally have m: "make_graphs photos3 None [2, 1] = Inl AttributeError" .
  from photos3_similarity sim3_choose w sim3_edge_dict1 m show ?thesis
    by blast
qed

end
